theory Spec2Isabelle
  imports Main "HOL-Library.AList"
begin

section \<open>The ModSecurity gate of \<^verbatim>\<open>modsecurity.go\<close>\<close>

text \<open>
  The plugin is one Go file. Its handler \<^verbatim>\<open>ServeHTTP\<close> works on two mutable objects
  handed in by the host, the response writer and the request, and talks to three things
  outside the file: the request body stream, the HTTP client that calls the decision
  service, and the upstream handler \<^verbatim>\<open>next\<close>. The model passes the two objects along in
  an explicit state, takes the three outside behaviours as functions, and represents a
  Go panic as a value, so that \<^verbatim>\<open>defer\<close>/\<^verbatim>\<open>recover\<close> becomes a case distinction.
  Bytes are \<^typ>\<open>char\<close>s, so a byte sequence and a Go string are both a \<^typ>\<open>string\<close>.
\<close>

subsection \<open>Headers\<close>

text \<open>
  \<^verbatim>\<open>http.Header\<close> is \<^verbatim>\<open>map[string][]string\<close>. It is an association list here: the
  order of the list is the order in which a \<^verbatim>\<open>range\<close> loop visits the entries (Go leaves
  it unspecified, so theorems hold for every order), \<^const>\<open>map_of\<close> is the lookup and
  \<^const>\<open>AList.update\<close> is the assignment \<^verbatim>\<open>h[k] = v\<close>.
\<close>

type_synonym header = "(string \<times> string list) list"

text \<open>Indexing a Go map at a missing key gives the zero value, the nil slice.\<close>

definition index :: "header \<Rightarrow> string \<Rightarrow> string list" where
  "index h k = (case map_of h k of None \<Rightarrow> [] | Some vs \<Rightarrow> vs)"

text \<open>
  \<^verbatim>\<open>Header.Set(k, v)\<close> replaces the values stored under the canonical form of \<open>k\<close> by
  the single value \<open>v\<close>. The canonical form is \<^verbatim>\<open>textproto.CanonicalMIMEHeaderKey\<close>, a
  library function, taken as the parameter \<open>canon\<close>.
\<close>

definition Header_Set :: "(string \<Rightarrow> string) \<Rightarrow> header \<Rightarrow> string \<Rightarrow> string \<Rightarrow> header" where
  "Header_Set canon h k v = AList.update (canon k) [v] h"

subsection \<open>Streams, requests, responses\<close>

text \<open>
  A request body is a stream: it delivers its pending bytes and then ends, with
  \<^verbatim>\<open>io.EOF\<close>, with another error (whose \<^verbatim>\<open>Error()\<close> text is kept), or, for a
  host-supplied reader that faults, with a panic.
\<close>

datatype ending = EOF | ReadError string | ReadPanic string

datatype reader = Reader (pending: string) (ending: ending)

record request =
  Method :: string
  RequestURI :: string
  Header :: header
  Body :: reader

text \<open>
  The verdict response as \<^verbatim>\<open>httpClient.Do\<close> returns it. \<open>RespBody\<close> is what the body
  stream delivers before it ends; \<open>RespBodyErr\<close> is the read error that ended it, if any.
\<close>

record response =
  StatusCode :: int
  RespHeader :: header
  RespBody :: string
  RespBodyErr :: "string option"

text \<open>The outbound request of lines 100 to 114.\<close>

record proxy_request =
  ProxyMethod :: string
  ProxyURL :: string
  ProxyHeader :: header
  ProxyBody :: string

subsection \<open>Configuration and construction\<close>

record Config =
  ModSecurityUrl :: string
  MaxBodySize :: int
  InterruptOnError :: bool
  Ignore500Error :: bool

definition CreateConfig :: Config where
  "CreateConfig =
     \<lparr>ModSecurityUrl = [], MaxBodySize = 10 * 1024 * 1024,
      InterruptOnError = True, Ignore500Error = False\<rparr>"

text \<open>
  The response writer is the host's. It is modelled as the standard one behaves towards
  the client: a live header map, the status line once it is written together with the
  headers as they were at that moment (\<open>None\<close> before \<^verbatim>\<open>WriteHeader\<close>), and the body
  bytes written so far.
\<close>

record response_writer =
  rwHeader :: header
  sent :: "(int \<times> header) option"
  written :: string

text \<open>
  A call either returns or panics; both leave a state behind, and a panic carries its
  value (as \<^verbatim>\<open>%s\<close> prints it).
\<close>

datatype 'a outcome = Returned 'a | Panicked string 'a

fun state_of :: "'a outcome \<Rightarrow> 'a" where
  "state_of (Returned s) = s"
| "state_of (Panicked v s) = s"

fun returned :: "'a outcome \<Rightarrow> bool" where
  "returned (Returned s) = True"
| "returned (Panicked v s) = False"

text \<open>
  An \<^verbatim>\<open>http.Handler\<close>: it gets the writer and the request, may change both (it reads
  the body, writes the response), and returns or panics.
\<close>

type_synonym handler = "response_writer \<Rightarrow> request \<Rightarrow> (response_writer \<times> request) outcome"

text \<open>The struct \<^verbatim>\<open>Modsecurity\<close>; its logger is a sink and is not a field here.\<close>

record Modsecurity =
  nextHandler :: handler
  modSecurityUrl :: string
  maxBodySize :: int
  interruptOnError :: bool
  ignore500Error :: bool
  name :: string

definition New :: "handler \<Rightarrow> Config \<Rightarrow> string \<Rightarrow> string + Modsecurity" where
  "New nxt config nm =
     (if length (ModSecurityUrl config) = 0 then Inl ''modSecurityUrl cannot be empty''
      else Inr \<lparr>nextHandler = nxt,
                modSecurityUrl = ModSecurityUrl config,
                maxBodySize = MaxBodySize config,
                interruptOnError = InterruptOnError config,
                ignore500Error = Ignore500Error config,
                name = nm\<rparr>)"

subsection \<open>The library functions the handler calls\<close>

text \<open>
  \<^verbatim>\<open>http.NewRequest\<close> and \<^verbatim>\<open>httpClient.Do\<close> are parameters: \<open>NewRequest m u\<close> is the
  error text when the library rejects method \<open>m\<close> or URL \<open>u\<close>, and \<open>Do\<close> gives, for the
  outbound request, the verdict response, a transport error (timeout, refused connection,
  failed lookup), or a panic.
\<close>

datatype do_result = DoResponse response | DoError string | DoPanic string

record library =
  CanonicalMIMEHeaderKey :: "string \<Rightarrow> string"
  NewRequest :: "string \<Rightarrow> string \<Rightarrow> string option"
  Do :: "proxy_request \<Rightarrow> do_result"

text \<open>How \<^verbatim>\<open>%v\<close> prints an integer: in decimal, with a minus sign when negative.\<close>

fun digits :: "nat \<Rightarrow> string" where
  "digits n = (if n < 10 then [char_of (48 + n)] else digits (n div 10) @ [char_of (48 + n mod 10)])"

declare digits.simps [simp del]

definition decimal :: "int \<Rightarrow> string" where
  "decimal i = (if i < 0 then CHR ''-'' # digits (nat (- i)) else digits (nat i))"

text \<open>
  \<^verbatim>\<open>WriteHeader\<close>: a call after the status line went out is ignored; otherwise a code
  outside 100 to 999 makes the writer panic, and any other code is sent with the headers
  as they are now. (No code from 100 to 199 is ever passed in this file, so interim
  responses are not modelled.) \<^verbatim>\<open>Write\<close> first calls \<^verbatim>\<open>WriteHeader\<close> with 200, a code
  that is always accepted, when nothing was sent yet.
\<close>

definition WriteHeader :: "response_writer \<Rightarrow> int \<Rightarrow> response_writer outcome" where
  "WriteHeader w code =
     (case sent w of
        Some _ \<Rightarrow> Returned w
      | None \<Rightarrow>
          (if code < 100 \<or> code > 999
           then Panicked (''invalid WriteHeader code '' @ decimal code) w
           else Returned (w\<lparr>sent := Some (code, rwHeader w)\<rparr>)))"

definition Write :: "response_writer \<Rightarrow> string \<Rightarrow> response_writer" where
  "Write w bs = (let w' = state_of (WriteHeader w 200) in w'\<lparr>written := written w' @ bs\<rparr>)"

text \<open>
  \<^verbatim>\<open>http.Error(w, error, code)\<close> sets two headers, writes the status, and prints the
  message with \<^verbatim>\<open>fmt.Fprintln\<close>, that is, followed by a newline. A panic of
  \<^verbatim>\<open>WriteHeader\<close> ends it after the headers are set.
\<close>

definition http_Error :: "(string \<Rightarrow> string) \<Rightarrow> response_writer \<Rightarrow> string \<Rightarrow> int \<Rightarrow> response_writer outcome" where
  "http_Error canon w msg code =
     (let w1 = w\<lparr>rwHeader := Header_Set canon (rwHeader w) ''Content-Type'' ''text/plain; charset=utf-8''\<rparr>;
          w2 = w1\<lparr>rwHeader := Header_Set canon (rwHeader w1) ''X-Content-Type-Options'' ''nosniff''\<rparr>
      in case WriteHeader w2 code of
           Panicked v w' \<Rightarrow> Panicked v w'
         | Returned w3 \<Rightarrow> Returned (Write w3 (msg @ [CHR 0x0A])))"

text \<open>
  \<^verbatim>\<open>io.Copy(rw, resp.Body)\<close> writes every byte the body delivers; it makes no
  \<^verbatim>\<open>Write\<close> call for an empty body, and the caller drops the error it returns.
\<close>

definition io_Copy :: "response_writer \<Rightarrow> string \<Rightarrow> response_writer" where
  "io_Copy w bs = (if bs = [] then w else Write w bs)"

text \<open>
  \<^verbatim>\<open>ioutil.ReadAll(http.MaxBytesReader(rw, body, n))\<close>. A negative limit counts as 0.
  The limiting reader never asks the stream for more than one byte past what is still
  allowed, and fails with the text below as soon as it gets that byte; so a body longer
  than the limit is consumed up to \<open>limit + 1\<close> bytes. A shorter one is read to its end.
  The second component is the stream after the call. (On hitting the limit the reader also
  asks a writer of the server's own type to close the connection after the reply; the
  writer here is the host's, and that request is left out.)
\<close>

datatype read_result = ReadOk string | ReadFailed string | ReadPanicked string

definition ReadAll_MaxBytesReader :: "int \<Rightarrow> reader \<Rightarrow> read_result \<times> reader" where
  "ReadAll_MaxBytesReader n r =
     (let limit = (if n < 0 then 0 else nat n) in
      if limit < length (pending r)
      then (ReadFailed ''http: request body too large'',
            Reader (drop (limit + 1) (pending r)) (ending r))
      else (case ending r of
              EOF \<Rightarrow> (ReadOk (pending r), Reader [] EOF)
            | ReadError m \<Rightarrow> (ReadFailed m, Reader [] (ReadError m))
            | ReadPanic v \<Rightarrow> (ReadPanicked v, Reader [] (ReadPanic v))))"

subsection \<open>The state of one request\<close>

text \<open>
  \<open>rw\<close> and \<open>req\<close> are the two objects \<^verbatim>\<open>ServeHTTP\<close> gets by reference. The other
  fields record what the handler did to the outside: the requests it passed to the
  upstream handler, the requests it sent to the decision service, and its log lines.
\<close>

datatype log_entry =
  Printf string
| Print string
| PrintRequest string request
| PrintResponse string response

record exchange =
  rw :: response_writer
  req :: request
  upstream_calls :: "request list"
  verdict_calls :: "proxy_request list"
  logged :: "log_entry list"

definition start :: "response_writer \<Rightarrow> request \<Rightarrow> exchange" where
  "start w r = \<lparr>rw = w, req = r, upstream_calls = [], verdict_calls = [], logged = []\<rparr>"

text \<open>\<^verbatim>\<open>a.next.ServeHTTP(rw, req)\<close>.\<close>

definition call_next :: "Modsecurity \<Rightarrow> exchange \<Rightarrow> exchange outcome" where
  "call_next a x =
     (let x' = x\<lparr>upstream_calls := upstream_calls x @ [req x]\<rparr> in
      case nextHandler a (rw x) (req x) of
        Returned (w, r) \<Rightarrow> Returned (x'\<lparr>rw := w, req := r\<rparr>)
      | Panicked v (w, r) \<Rightarrow> Panicked v (x'\<lparr>rw := w, req := r\<rparr>))"

subsection \<open>The functions of the file\<close>

fun isWebsocket_loop :: "string list \<Rightarrow> bool" where
  "isWebsocket_loop [] = False"
| "isWebsocket_loop (h # hs) = (if h = ''websocket'' then True else isWebsocket_loop hs)"

definition isWebsocket :: "request \<Rightarrow> bool" where
  "isWebsocket r = isWebsocket_loop (index (Header r) ''Upgrade'')"

text \<open>
  \<^verbatim>\<open>forwardResponse\<close>: the inner loop over the values of one key, the outer over the
  keys; then the status, where the writer may panic, which ends the function with the
  headers copied and nothing sent; then the body.
\<close>

fun set_values :: "(string \<Rightarrow> string) \<Rightarrow> string \<Rightarrow> string list \<Rightarrow> header \<Rightarrow> header" where
  "set_values canon k [] h = h"
| "set_values canon k (v # vv) h = set_values canon k vv (Header_Set canon h k v)"

fun copy_headers :: "(string \<Rightarrow> string) \<Rightarrow> header \<Rightarrow> header \<Rightarrow> header" where
  "copy_headers canon [] h = h"
| "copy_headers canon ((k, vv) # rest) h = copy_headers canon rest (set_values canon k vv h)"

definition forwardResponse :: "library \<Rightarrow> response \<Rightarrow> response_writer \<Rightarrow> response_writer outcome" where
  "forwardResponse lib resp w =
     (let w1 = w\<lparr>rwHeader := copy_headers (CanonicalMIMEHeaderKey lib) (RespHeader resp) (rwHeader w)\<rparr>
      in case WriteHeader w1 (StatusCode resp) of
           Panicked v w' \<Rightarrow> Panicked v w'
         | Returned w2 \<Rightarrow> Returned (io_Copy w2 (RespBody resp)))"

definition handleError :: "library \<Rightarrow> Modsecurity \<Rightarrow> exchange \<Rightarrow> string \<Rightarrow> int \<Rightarrow> exchange outcome" where
  "handleError lib a x errorMessage code =
     (let x1 = x\<lparr>logged := logged x @
                  [Printf errorMessage, PrintRequest ''ModSecurity::handleError Request: '' (req x)]\<rparr> in
      if interruptOnError a
      then (let x2 = x1\<lparr>logged := logged x1 @ [Print ''ModSecurity::handleError [Interrupt]'']\<rparr> in
            case http_Error (CanonicalMIMEHeaderKey lib) (rw x2) [] code of
              Returned w \<Rightarrow> Returned (x2\<lparr>rw := w\<rparr>)
            | Panicked v w \<Rightarrow> Panicked v (x2\<lparr>rw := w\<rparr>))
      else call_next a (x1\<lparr>logged := logged x1 @ [Print ''ModSecurity::handleError [Continue]'']\<rparr>))"

text \<open>
  Lines 100 to 114: the URL, the outbound request (the library turns an empty method into
  \<^verbatim>\<open>GET\<close>), and the loop that copies the headers entry by entry into a new map.
\<close>

definition proxyRequest :: "Modsecurity \<Rightarrow> request \<Rightarrow> string \<Rightarrow> proxy_request" where
  "proxyRequest a r body =
     \<lparr>ProxyMethod = (if Method r = [] then ''GET'' else Method r),
      ProxyURL = modSecurityUrl a @ RequestURI r,
      ProxyHeader = fold (\<lambda>(h, val) m. AList.update h val m) (Header r) [],
      ProxyBody = body\<rparr>"

text \<open>Lines 125 and 126: the two log lines for a verdict status of 500 or more.\<close>

definition log_500 :: "response \<Rightarrow> exchange \<Rightarrow> exchange" where
  "log_500 resp x =
     x\<lparr>logged := logged x @
          [PrintRequest ''OWASP 500 error. Request '' (req x),
           PrintResponse ''OWASP 500 error. Response '' resp]\<rparr>"

text \<open>Lines 123 to 134: what is done with the verdict response.\<close>

definition arbitrate :: "library \<Rightarrow> Modsecurity \<Rightarrow> response \<Rightarrow> exchange \<Rightarrow> exchange outcome" where
  "arbitrate lib a resp x =
     (if StatusCode resp \<ge> 400 then
        (let x1 = (if StatusCode resp \<ge> 500 then log_500 resp x else x) in
         if StatusCode resp < 500 \<or> \<not> ignore500Error a
         then (case forwardResponse lib resp (rw x1) of
                 Returned w \<Rightarrow> Returned (x1\<lparr>rw := w\<rparr>)
               | Panicked v w \<Rightarrow> Panicked v (x1\<lparr>rw := w\<rparr>))
         else call_next a x1)
      else call_next a x)"

text \<open>Lines 86 to 134: capture, outbound call, arbitration.\<close>

definition inspect :: "library \<Rightarrow> Modsecurity \<Rightarrow> exchange \<Rightarrow> exchange outcome" where
  "inspect lib a x =
     (case ReadAll_MaxBytesReader (maxBodySize a) (Body (req x)) of
        (res, consumed) \<Rightarrow>
          (let x1 = x\<lparr>req := (req x)\<lparr>Body := consumed\<rparr>\<rparr> in
           case res of
             ReadPanicked v \<Rightarrow> Panicked v x1
           | ReadFailed err \<Rightarrow>
               (if err = ''http: request body too large''
                then handleError lib a x1 (''body max limit reached: '' @ err) 413
                else handleError lib a x1 (''fail to read incoming request: '' @ err) 502)
           | ReadOk body \<Rightarrow>
               (let x2 = x1\<lparr>req := (req x1)\<lparr>Body := Reader body EOF\<rparr>\<rparr>;
                    url = modSecurityUrl a @ RequestURI (req x2)
                in case NewRequest lib (Method (req x2)) url of
                     Some err \<Rightarrow>
                       handleError lib a x2 (''fail to prepare forwarded request: '' @ err) 502
                   | None \<Rightarrow>
                       (let proxyReq = proxyRequest a (req x2) body;
                            x3 = x2\<lparr>verdict_calls := verdict_calls x2 @ [proxyReq]\<rparr>
                        in case Do lib proxyReq of
                             DoPanic v \<Rightarrow> Panicked v x3
                           | DoError err \<Rightarrow>
                               handleError lib a x3
                                 (''fail to send HTTP request to modsec: '' @ err) 502
                           | DoResponse resp \<Rightarrow> arbitrate lib a resp x3))))"

text \<open>
  Lines 78 to 134, the body of \<^verbatim>\<open>ServeHTTP\<close> under its \<^verbatim>\<open>defer\<close>. (The deferred
  \<^verbatim>\<open>resp.Body.Close()\<close> of line 121 changes nothing that is modelled.)
\<close>

definition ServeHTTP_body :: "library \<Rightarrow> Modsecurity \<Rightarrow> exchange \<Rightarrow> exchange outcome" where
  "ServeHTTP_body lib a x = (if isWebsocket (req x) then call_next a x else inspect lib a x)"

text \<open>
  Lines 71 to 76, the deferred function: it runs when the body is left, recovers a panic
  of the body and hands it to \<^verbatim>\<open>handleError\<close>. A panic raised inside the deferred
  function itself is not recovered by it and leaves \<^verbatim>\<open>ServeHTTP\<close>.
\<close>

definition recover :: "library \<Rightarrow> Modsecurity \<Rightarrow> exchange outcome \<Rightarrow> exchange outcome" where
  "recover lib a out =
     (case out of
        Returned x \<Rightarrow> Returned x
      | Panicked v x \<Rightarrow> handleError lib a x (''Panic. Error: '' @ v) 502)"

definition ServeHTTP :: "library \<Rightarrow> Modsecurity \<Rightarrow> response_writer \<Rightarrow> request \<Rightarrow> exchange outcome" where
  "ServeHTTP lib a w r = recover lib a (ServeHTTP_body lib a (start w r))"

subsection \<open>The state when the verdict arrives\<close>

text \<open>
  When the body \<open>body\<close> was captured and the outbound call was made, the request holds a
  fresh stream over \<open>body\<close>, one request went to the decision service, and nothing else
  happened yet.
\<close>

definition verdict_state :: "Modsecurity \<Rightarrow> response_writer \<Rightarrow> request \<Rightarrow> string \<Rightarrow> exchange" where
  "verdict_state a w r body =
     \<lparr>rw = w, req = r\<lparr>Body := Reader body EOF\<rparr>, upstream_calls = [],
      verdict_calls = [proxyRequest a r body], logged = []\<rparr>"

subsection \<open>What a header copy should contain\<close>

text \<open>
  The values a header map lists under the keys whose canonical form is \<open>c\<close>, in the order
  in which a loop over the map meets them.
\<close>

definition values_for :: "(string \<Rightarrow> string) \<Rightarrow> header \<Rightarrow> string \<Rightarrow> string list" where
  "values_for canon hs c = concat (map snd (filter (\<lambda>e. canon (fst e) = c) hs))"

subsection \<open>Sample inputs\<close>

text \<open>
  Concrete libraries, handlers, gates and requests, on which the theorems below are
  instantiated. The sample gate allows bodies of up to four bytes. The header keys used
  are in canonical form already, so the sample library's canonical form is the identity.
\<close>

definition sample_library :: "(string \<Rightarrow> string \<Rightarrow> string option) \<Rightarrow> do_result \<Rightarrow> library" where
  "sample_library nr d = \<lparr>CanonicalMIMEHeaderKey = (\<lambda>k. k), NewRequest = nr, Do = (\<lambda>p. d)\<rparr>"

definition accepts :: "string \<Rightarrow> string \<Rightarrow> string option" where
  "accepts m u = None"

definition rejects :: "string \<Rightarrow> string \<Rightarrow> string option" where
  "rejects m u = Some ''net/http: invalid method''"

definition sample_response :: "int \<Rightarrow> response" where
  "sample_response s =
     \<lparr>StatusCode = s,
      RespHeader = [(''Content-Type'', [''text/html'']), (''Set-Cookie'', [''a=1'', ''b=2''])],
      RespBody = ''blocked'', RespBodyErr = None\<rparr>"

text \<open>An upstream handler that reads the body to its end and answers, and one that panics.\<close>

definition upstream_ok :: handler where
  "upstream_ok w r = Returned (Write w ''ok'', r\<lparr>Body := Reader [] (ending (Body r))\<rparr>)"

definition upstream_faulty :: handler where
  "upstream_faulty w r = Panicked ''boom'' (w, r)"

definition sample_gate :: "handler \<Rightarrow> bool \<Rightarrow> bool \<Rightarrow> Modsecurity" where
  "sample_gate h i g =
     \<lparr>nextHandler = h, modSecurityUrl = ''http://waf:8080'', maxBodySize = 4,
      interruptOnError = i, ignore500Error = g, name = ''waf''\<rparr>"

definition fresh_writer :: response_writer where
  "fresh_writer = \<lparr>rwHeader = [], sent = None, written = []\<rparr>"

definition sample_request :: "header \<Rightarrow> reader \<Rightarrow> request" where
  "sample_request h b = \<lparr>Method = ''POST'', RequestURI = ''/login'', Header = h, Body = b\<rparr>"

section \<open>Facts about the parts\<close>

subsection \<open>Header copying\<close>

lemma set_values_lookup:
  "map_of (set_values canon k vv h) c =
     (if canon k = c \<and> vv \<noteq> [] then Some [last vv] else map_of h c)"
  by (induction vv arbitrary: h) (auto simp: Header_Set_def update_conv')

lemma values_for_Nil: "values_for canon [] c = []"
  by (simp add: values_for_def)

lemma values_for_Cons:
  "values_for canon ((k, vv) # hs) c = (if canon k = c then vv else []) @ values_for canon hs c"
  by (simp add: values_for_def)

lemma copy_headers_lookup:
  "map_of (copy_headers canon hs h) c =
     (if values_for canon hs c = [] then map_of h c
      else Some [last (values_for canon hs c)])"
proof (induction hs arbitrary: h)
  case Nil
  then show ?case by (simp add: values_for_Nil)
next
  case (Cons e hs)
  obtain k vv where e: "e = (k, vv)" by (cases e)
  show ?case
    unfolding e using Cons.IH [of "set_values canon k vv h"]
    by (cases "values_for canon hs c = []")
       (simp_all add: set_values_lookup values_for_Cons)
qed


subsection \<open>Calls, the error policy and recovery\<close>

lemma isWebsocket_loop_iff: "isWebsocket_loop hs = (''websocket'' \<in> set hs)"
  by (induction hs) auto

lemma call_next_upstream:
  "upstream_calls (state_of (call_next a x)) = upstream_calls x @ [req x]"
  by (simp add: call_next_def Let_def split: outcome.splits prod.splits)

lemma call_next_verdict:
  "verdict_calls (state_of (call_next a x)) = verdict_calls x"
  by (simp add: call_next_def Let_def split: outcome.splits prod.splits)

lemma call_next_returned:
  "returned (call_next a x) = returned (nextHandler a (rw x) (req x))"
  by (simp add: call_next_def Let_def split: outcome.splits prod.splits)

lemma returned_eq: "returned out \<Longrightarrow> out = Returned (state_of out)"
  by (cases out) simp_all

lemma WriteHeader_accepts:
  "100 \<le> code \<Longrightarrow> code \<le> 999 \<Longrightarrow> returned (WriteHeader w code)"
  by (simp add: WriteHeader_def split: option.splits)

lemma http_Error_returned:
  "100 \<le> code \<Longrightarrow> code \<le> 999 \<Longrightarrow> returned (http_Error canon w m code)"
  by (simp add: http_Error_def WriteHeader_def Let_def split: option.splits)

lemma http_Error_state:
  "100 \<le> code \<Longrightarrow> code \<le> 999 \<Longrightarrow>
   Returned (state_of (http_Error canon w m code)) = http_Error canon w m code"
  using returned_eq [OF http_Error_returned, of code canon w m] by simp

lemma handleError_interrupt:
  assumes "interruptOnError a" and "100 \<le> code" and "code \<le> 999"
  shows "handleError lib a x m code =
     Returned (x\<lparr>logged := logged x @
                   [Printf m, PrintRequest ''ModSecurity::handleError Request: '' (req x),
                    Print ''ModSecurity::handleError [Interrupt]''],
                 rw := state_of (http_Error (CanonicalMIMEHeaderKey lib) (rw x) [] code)\<rparr>)"
proof -
  have "returned (http_Error (CanonicalMIMEHeaderKey lib) (rw x) [] code)"
    using assms(2,3) by (rule http_Error_returned)
  then obtain w where "http_Error (CanonicalMIMEHeaderKey lib) (rw x) [] code = Returned w"
    by (cases "http_Error (CanonicalMIMEHeaderKey lib) (rw x) [] code") simp_all
  then show ?thesis
    using assms(1) by (simp add: handleError_def Let_def)
qed

lemma handleError_continue:
  "\<not> interruptOnError a \<Longrightarrow>
   handleError lib a x m code =
     call_next a (x\<lparr>logged := logged x @
                   [Printf m, PrintRequest ''ModSecurity::handleError Request: '' (req x),
                    Print ''ModSecurity::handleError [Continue]'']\<rparr>)"
  by (simp add: handleError_def Let_def)

lemma handleError_verdict:
  "verdict_calls (state_of (handleError lib a x m code)) = verdict_calls x"
  by (cases "interruptOnError a")
     (simp_all add: handleError_def Let_def call_next_verdict split: outcome.splits)

lemma handleError_upstream:
  "upstream_calls (state_of (handleError lib a x m code)) =
     (if interruptOnError a then upstream_calls x else upstream_calls x @ [req x])"
  by (cases "interruptOnError a")
     (simp_all add: handleError_def Let_def call_next_upstream split: outcome.splits)

lemma recover_verdict:
  "verdict_calls (state_of (recover lib a out)) = verdict_calls (state_of out)"
  by (cases out) (simp_all add: recover_def handleError_verdict)

lemma recover_upstream:
  "\<exists>rest. upstream_calls (state_of (recover lib a out)) = upstream_calls (state_of out) @ rest"
  by (cases out) (simp_all add: recover_def handleError_upstream)

lemma recover_Returned: "recover lib a (Returned x) = Returned x"
  by (simp add: recover_def)

lemma recover_interrupt_returned: "interruptOnError a \<Longrightarrow> returned (recover lib a out)"
  by (cases out) (simp_all add: recover_def handleError_interrupt)

lemma http_Error_fresh:
  "sent w = None \<Longrightarrow> 100 \<le> code \<Longrightarrow> code \<le> 999 \<Longrightarrow>
   sent (state_of (http_Error canon w m code)) =
     Some (code, Header_Set canon (Header_Set canon (rwHeader w) ''Content-Type'' ''text/plain; charset=utf-8'')
                   ''X-Content-Type-Options'' ''nosniff'') \<and>
   written (state_of (http_Error canon w m code)) = written w @ m @ [CHR 0x0A]"
  by (simp add: http_Error_def WriteHeader_def Write_def Let_def)

lemma forwardResponse_returned:
  "100 \<le> StatusCode resp \<Longrightarrow> StatusCode resp \<le> 999 \<Longrightarrow> returned (forwardResponse lib resp w)"
  by (simp add: forwardResponse_def WriteHeader_def Let_def split: option.splits)

lemma forwardResponse_fresh:
  "sent w = None \<Longrightarrow> 100 \<le> StatusCode resp \<Longrightarrow> StatusCode resp \<le> 999 \<Longrightarrow>
   sent (state_of (forwardResponse lib resp w)) =
     Some (StatusCode resp, copy_headers (CanonicalMIMEHeaderKey lib) (RespHeader resp) (rwHeader w)) \<and>
   written (state_of (forwardResponse lib resp w)) = written w @ RespBody resp"
  by (simp add: forwardResponse_def WriteHeader_def Write_def io_Copy_def Let_def)


lemma proxyRequest_Body: "proxyRequest a (r\<lparr>Body := b\<rparr>) body = proxyRequest a r body"
  by (simp add: proxyRequest_def)

text \<open>What \<open>inspect\<close> does once the body is captured.\<close>

lemma inspect_captured:
  assumes "ReadAll_MaxBytesReader (maxBodySize a) (Body r) = (ReadOk body, c)"
  shows "inspect lib a (start w r) =
     (case NewRequest lib (Method r) (modSecurityUrl a @ RequestURI r) of
        Some err \<Rightarrow>
          handleError lib a ((start w r)\<lparr>req := r\<lparr>Body := Reader body EOF\<rparr>\<rparr>)
            (''fail to prepare forwarded request: '' @ err) 502
      | None \<Rightarrow>
          (case Do lib (proxyRequest a r body) of
             DoPanic v \<Rightarrow> Panicked v (verdict_state a w r body)
           | DoError err \<Rightarrow>
               handleError lib a (verdict_state a w r body)
                 (''fail to send HTTP request to modsec: '' @ err) 502
           | DoResponse resp \<Rightarrow> arbitrate lib a resp (verdict_state a w r body)))"
  using assms
  by (simp add: inspect_def start_def verdict_state_def Let_def proxyRequest_Body
      split: option.splits do_result.splits)

lemma inspect_failed:
  assumes "ReadAll_MaxBytesReader (maxBodySize a) (Body r) = (ReadFailed err, c)"
  shows "inspect lib a (start w r) =
     handleError lib a ((start w r)\<lparr>req := r\<lparr>Body := c\<rparr>\<rparr>)
       ((if err = ''http: request body too large'' then ''body max limit reached: ''
         else ''fail to read incoming request: '') @ err)
       (if err = ''http: request body too large'' then 413 else 502)"
  using assms by (simp add: inspect_def start_def Let_def)


section \<open>Construction\<close>

text \<open>
  C8. \<^verbatim>\<open>New\<close> fails, returning an error and no gate, when the decision-service URL of the
  configuration is empty; for every non-empty URL it succeeds and the gate holds the
  configuration's four values, the upstream handler and the name it was given.
\<close>

theorem New_empty_url_fails:
  "(ModSecurityUrl config = [] \<longrightarrow> New nxt config nm = Inl ''modSecurityUrl cannot be empty'') \<and>
   (ModSecurityUrl config \<noteq> [] \<longrightarrow>
      (\<exists>a. New nxt config nm = Inr a \<and>
           modSecurityUrl a = ModSecurityUrl config \<and>
           maxBodySize a = MaxBodySize config \<and>
           interruptOnError a = InterruptOnError config \<and>
           ignore500Error a = Ignore500Error config \<and>
           nextHandler a = nxt \<and> name a = nm))"
  by (simp add: New_def)

theorem New_empty_url_fails_witness:
  "New upstream_ok CreateConfig ''waf'' = Inl ''modSecurityUrl cannot be empty'' \<and>
   (\<exists>a. New upstream_ok (CreateConfig\<lparr>ModSecurityUrl := ''http://waf:8080''\<rparr>) ''waf'' = Inr a \<and>
        modSecurityUrl a = ''http://waf:8080'' \<and> maxBodySize a = 10485760 \<and>
        interruptOnError a = True \<and> ignore500Error a = False \<and>
        nextHandler a = upstream_ok \<and> name a = ''waf'')"
  using New_empty_url_fails [where config = CreateConfig and nxt = upstream_ok and nm = "''waf''"]
    New_empty_url_fails [where config = "CreateConfig\<lparr>ModSecurityUrl := ''http://waf:8080''\<rparr>"
      and nxt = upstream_ok and nm = "''waf''"]
  by (simp add: CreateConfig_def)

section \<open>The handler\<close>

subsection \<open>Reaching the verdict\<close>

lemma ServeHTTP_inspect: "\<not> isWebsocket r \<Longrightarrow> ServeHTTP lib a w r = recover lib a (inspect lib a (start w r))"
  by (simp add: ServeHTTP_def ServeHTTP_body_def start_def)

lemma ServeHTTP_verdict:
  assumes "\<not> isWebsocket r"
    and "ReadAll_MaxBytesReader (maxBodySize a) (Body r) = (ReadOk body, c)"
    and "NewRequest lib (Method r) (modSecurityUrl a @ RequestURI r) = None"
    and "Do lib (proxyRequest a r body) = DoResponse resp"
  shows "ServeHTTP lib a w r = recover lib a (arbitrate lib a resp (verdict_state a w r body))"
  using assms by (simp add: ServeHTTP_inspect inspect_captured)

lemma recover_call_next_upstream:
  "\<exists>rest. upstream_calls (state_of (recover lib a (call_next a x))) = upstream_calls x @ req x # rest"
  using recover_upstream [of lib a "call_next a x"] by (simp add: call_next_upstream)

subsection \<open>Arbitration\<close>

lemma log_500_fields:
  "rw (log_500 resp x) = rw x" "req (log_500 resp x) = req x"
  "upstream_calls (log_500 resp x) = upstream_calls x"
  "verdict_calls (log_500 resp x) = verdict_calls x"
  by (simp_all add: log_500_def)



lemma arbitrate_block:
  assumes "400 \<le> StatusCode resp" and "StatusCode resp < 500 \<or> \<not> ignore500Error a"
  shows "arbitrate lib a resp x =
     (case forwardResponse lib resp (rw x) of
        Returned w \<Rightarrow> Returned ((if 500 \<le> StatusCode resp then log_500 resp x else x)\<lparr>rw := w\<rparr>)
      | Panicked v w \<Rightarrow> Panicked v ((if 500 \<le> StatusCode resp then log_500 resp x else x)\<lparr>rw := w\<rparr>))"
  using assms by (auto simp add: arbitrate_def Let_def log_500_fields split: outcome.splits)

lemma arbitrate_relays:
  assumes "400 \<le> StatusCode resp" and "StatusCode resp < 500 \<or> \<not> ignore500Error a"
    and "StatusCode resp \<le> 999"
  shows "arbitrate lib a resp x =
     Returned ((if 500 \<le> StatusCode resp then log_500 resp x else x)
                 \<lparr>rw := state_of (forwardResponse lib resp (rw x))\<rparr>)"
proof -
  have "returned (forwardResponse lib resp (rw x))"
    using assms(1,3) by (intro forwardResponse_returned) simp_all
  then obtain w where "forwardResponse lib resp (rw x) = Returned w"
    by (cases "forwardResponse lib resp (rw x)") simp_all
  then show ?thesis
    by (simp add: arbitrate_block [OF assms(1,2)])
qed




subsection \<open>The allowed request\<close>

lemma ReadAll_within_limit:
  "int (length data) \<le> n \<Longrightarrow>
   ReadAll_MaxBytesReader n (Reader data EOF) = (ReadOk data, Reader [] EOF)"
  by (simp add: ReadAll_MaxBytesReader_def Let_def)

text \<open>
  C2. For a request that is inspected, whose body stream delivers \<open>data\<close> and ends, with
  \<open>data\<close> no longer than \<open>maxBodySize\<close>, and whose verdict status is below 400: the capture
  drains the original stream, and the upstream handler is then called with the request
  whose body is a fresh stream over exactly \<open>data\<close>, the original bytes.
\<close>

theorem allowed_request_keeps_body:
  assumes "\<not> isWebsocket r"
    and "Body r = Reader data EOF"
    and "int (length data) \<le> maxBodySize a"
    and "NewRequest lib (Method r) (modSecurityUrl a @ RequestURI r) = None"
    and "Do lib (proxyRequest a r data) = DoResponse resp"
    and "StatusCode resp < 400"
  shows "snd (ReadAll_MaxBytesReader (maxBodySize a) (Body r)) = Reader [] EOF \<and>
         ServeHTTP lib a w r = recover lib a (call_next a (verdict_state a w r data)) \<and>
         req (verdict_state a w r data) = r\<lparr>Body := Reader data EOF\<rparr> \<and>
         (\<exists>rest. upstream_calls (state_of (ServeHTTP lib a w r)) = r\<lparr>Body := Reader data EOF\<rparr> # rest)"
proof -
  let ?x = "verdict_state a w r data"
  have rd: "ReadAll_MaxBytesReader (maxBodySize a) (Body r) = (ReadOk data, Reader [] EOF)"
    using assms(2,3) by (simp add: ReadAll_within_limit)
  have "ServeHTTP lib a w r = recover lib a (arbitrate lib a resp ?x)"
    using assms(1) rd assms(4,5) by (rule ServeHTTP_verdict)
  then have S: "ServeHTTP lib a w r = recover lib a (call_next a ?x)"
    using assms(6) by (simp add: arbitrate_def)
  have x: "upstream_calls ?x = []" "req ?x = r\<lparr>Body := Reader data EOF\<rparr>"
    by (simp_all add: verdict_state_def)
  show ?thesis
    using recover_call_next_upstream [of lib a ?x] by (simp add: S rd x)
qed

theorem allowed_request_keeps_body_witness:
  "\<exists>rest. upstream_calls (state_of (ServeHTTP (sample_library accepts (DoResponse (sample_response 200)))
      (sample_gate upstream_ok True False) fresh_writer (sample_request [] (Reader ''abcd'' EOF))))
     = sample_request [] (Reader ''abcd'' EOF) # rest"
proof -
  have nw: "\<not> isWebsocket (sample_request [] (Reader ''abcd'' EOF))"
    by (simp add: isWebsocket_def sample_request_def index_def)
  have bd: "Body (sample_request [] (Reader ''abcd'' EOF)) = Reader ''abcd'' EOF"
    by (simp add: sample_request_def)
  have le: "int (length ''abcd'') \<le> maxBodySize (sample_gate upstream_ok True False)"
    by (simp add: sample_gate_def)
  have nr: "NewRequest (sample_library accepts d) m u = None" for d m u
    by (simp add: sample_library_def accepts_def)
  have do: "Do (sample_library accepts d) p = d" for d p
    by (simp add: sample_library_def)
  have st: "StatusCode (sample_response 200) < 400"
    by (simp add: sample_response_def)
  have same: "(sample_request [] (Reader ''abcd'' EOF))\<lparr>Body := Reader ''abcd'' EOF\<rparr> =
      sample_request [] (Reader ''abcd'' EOF)"
    by (simp add: sample_request_def)
  from allowed_request_keeps_body [OF nw bd le nr do st, of fresh_writer]
  show ?thesis
    unfolding same by (elim conjE)
qed

subsection \<open>The blocked request\<close>

text \<open>
  C3, as amended. On the Block outcome (verdict status from 400 on, and below 500 or
  \<open>ignore500Error\<close> false) with a verdict status of at most 999, the largest the writer
  accepts, and a writer to which nothing was sent yet: \<^verbatim>\<open>ServeHTTP\<close> returns without
  calling the upstream handler; the client gets the verdict's status code; under every
  canonical key for which the verdict response lists values, the headers sent hold the
  one value met last, and under every other key what the writer held before; and the
  body sent is the verdict body, byte for byte.
\<close>

theorem block_relays_verdict:
  assumes "\<not> isWebsocket r"
    and "ReadAll_MaxBytesReader (maxBodySize a) (Body r) = (ReadOk body, c)"
    and "NewRequest lib (Method r) (modSecurityUrl a @ RequestURI r) = None"
    and "Do lib (proxyRequest a r body) = DoResponse resp"
    and "400 \<le> StatusCode resp"
    and "StatusCode resp < 500 \<or> \<not> ignore500Error a"
    and "StatusCode resp \<le> 999"
    and "sent w = None" and "written w = []"
  shows "\<exists>x H. ServeHTTP lib a w r = Returned x \<and>
           upstream_calls x = [] \<and>
           sent (rw x) = Some (StatusCode resp, H) \<and>
           (\<forall>k. map_of H k =
                 (if values_for (CanonicalMIMEHeaderKey lib) (RespHeader resp) k = []
                  then map_of (rwHeader w) k
                  else Some [last (values_for (CanonicalMIMEHeaderKey lib) (RespHeader resp) k)])) \<and>
           written (rw x) = RespBody resp"
proof -
  let ?x = "verdict_state a w r body"
  let ?x1 = "if 500 \<le> StatusCode resp then log_500 resp ?x else ?x"
  let ?y = "?x1\<lparr>rw := state_of (forwardResponse lib resp w)\<rparr>"
  have S: "ServeHTTP lib a w r = recover lib a (arbitrate lib a resp ?x)"
    using assms(1-4) by (rule ServeHTTP_verdict)
  have x: "rw ?x = w" "upstream_calls ?x1 = []"
    by (simp_all add: verdict_state_def log_500_def)
  have A: "arbitrate lib a resp ?x = Returned ?y"
    using arbitrate_relays [OF assms(5,6,7), of lib ?x] by (simp only: x(1))
  have u: "upstream_calls ?y = []"
    using x(2) by simp
  have R: "ServeHTTP lib a w r = Returned ?y"
    by (simp add: S A recover_Returned)
  have rwy: "rw ?y = state_of (forwardResponse lib resp w)"
    by simp
  have "100 \<le> StatusCode resp"
    using assms(5) by simp
  from forwardResponse_fresh [OF assms(8) this assms(7), of lib] assms(9) u
  show ?thesis
    by (simp only: R rwy) (simp add: copy_headers_lookup)
qed

theorem block_relays_verdict_witness:
  "\<exists>x H. ServeHTTP (sample_library accepts (DoResponse (sample_response 403)))
      (sample_gate upstream_ok True True) fresh_writer (sample_request [] (Reader ''abc'' EOF)) = Returned x \<and>
     upstream_calls x = [] \<and> sent (rw x) = Some (403, H) \<and>
     map_of H ''Set-Cookie'' = Some [''b=2''] \<and> map_of H ''Content-Type'' = Some [''text/html''] \<and>
     map_of H ''Server'' = None \<and> written (rw x) = ''blocked''"
proof -
  have nw: "\<not> isWebsocket (sample_request [] (Reader ''abc'' EOF))"
    by (simp add: isWebsocket_def sample_request_def index_def)
  have rd: "ReadAll_MaxBytesReader (maxBodySize (sample_gate upstream_ok True True))
      (Body (sample_request [] (Reader ''abc'' EOF))) = (ReadOk ''abc'', Reader [] EOF)"
    by (simp add: ReadAll_MaxBytesReader_def sample_gate_def sample_request_def)
  have nr: "NewRequest (sample_library accepts d) m u = None" for d m u
    by (simp add: sample_library_def accepts_def)
  have do: "Do (sample_library accepts d) p = d" for d p
    by (simp add: sample_library_def)
  have st: "400 \<le> StatusCode (sample_response 403)"
    "StatusCode (sample_response 403) < 500 \<or> \<not> ignore500Error (sample_gate upstream_ok True True)"
    "StatusCode (sample_response 403) \<le> 999"
    by (simp_all add: sample_response_def)
  have fr: "sent fresh_writer = None" "written fresh_writer = []"
    by (simp_all add: fresh_writer_def)
  obtain x H where x: "ServeHTTP (sample_library accepts (DoResponse (sample_response 403)))
      (sample_gate upstream_ok True True) fresh_writer (sample_request [] (Reader ''abc'' EOF)) = Returned x"
    "upstream_calls x = []" "sent (rw x) = Some (StatusCode (sample_response 403), H)"
    "\<forall>k. map_of H k =
         (if values_for (CanonicalMIMEHeaderKey (sample_library accepts (DoResponse (sample_response 403))))
               (RespHeader (sample_response 403)) k = []
          then map_of (rwHeader fresh_writer) k
          else Some [last (values_for (CanonicalMIMEHeaderKey (sample_library accepts (DoResponse (sample_response 403))))
               (RespHeader (sample_response 403)) k)])"
    "written (rw x) = RespBody (sample_response 403)"
    using block_relays_verdict [OF nw rd nr do st fr] by blast
  have "map_of H ''Set-Cookie'' = Some [''b=2'']" "map_of H ''Content-Type'' = Some [''text/html'']"
    "map_of H ''Server'' = None"
    by (simp_all add: x(4) values_for_def sample_library_def sample_response_def fresh_writer_def)
  then show ?thesis
    using x(1,2,3,5) by (simp add: sample_response_def)
qed

text \<open>
  C3 as stated fails on a Block outcome whose verdict status is 1000: the writer refuses
  that status and nothing of the verdict is sent as the response. In interrupt mode the
  client gets status 502 and a body of one newline byte instead of status 1000 and the
  verdict body; in continue mode the upstream handler is called.
\<close>

theorem block_relays_verdict_counterexample:
  "400 \<le> StatusCode (sample_response 1000) \<and>
   \<not> ignore500Error (sample_gate upstream_ok True False) \<and>
   map_option fst (sent (rw (state_of (ServeHTTP (sample_library accepts (DoResponse (sample_response 1000)))
      (sample_gate upstream_ok True False) fresh_writer (sample_request [] (Reader ''abc'' EOF)))))) =
     Some 502 \<and>
   written (rw (state_of (ServeHTTP (sample_library accepts (DoResponse (sample_response 1000)))
      (sample_gate upstream_ok True False) fresh_writer (sample_request [] (Reader ''abc'' EOF))))) =
     [CHR 0x0A] \<and>
   RespBody (sample_response 1000) = ''blocked'' \<and>
   upstream_calls (state_of (ServeHTTP (sample_library accepts (DoResponse (sample_response 1000)))
      (sample_gate upstream_ok False False) fresh_writer (sample_request [] (Reader ''abc'' EOF)))) =
     [sample_request [] (Reader ''abc'' EOF)]"
  by code_simp

subsection \<open>Websocket upgrades\<close>

lemma ServeHTTP_websocket:
  "isWebsocket r \<Longrightarrow> ServeHTTP lib a w r = recover lib a (call_next a (start w r))"
  by (simp add: ServeHTTP_def ServeHTTP_body_def start_def)

lemma start_fields:
  "rw (start w r) = w" "req (start w r) = r" "upstream_calls (start w r) = []"
  "verdict_calls (start w r) = []" "logged (start w r) = []"
  by (simp_all add: start_def)

text \<open>
  C5. A request counts as a websocket upgrade exactly when one of the values stored under
  the key \<^verbatim>\<open>Upgrade\<close> is the string \<^verbatim>\<open>websocket\<close>, compared byte by byte. For such a request
  \<^verbatim>\<open>ServeHTTP\<close> does nothing but call the upstream handler with the request as it came (its
  body unread) under the deferred recovery, and the decision service is never contacted.
  For every other request the inspection of lines 86 to 134 runs.
\<close>

theorem websocket_bypass:
  "isWebsocket r = (''websocket'' \<in> set (index (Header r) ''Upgrade'')) \<and>
   (isWebsocket r \<longrightarrow>
      ServeHTTP lib a w r = recover lib a (call_next a (start w r)) \<and>
      verdict_calls (state_of (ServeHTTP lib a w r)) = [] \<and>
      (\<exists>rest. upstream_calls (state_of (ServeHTTP lib a w r)) = r # rest)) \<and>
   (\<not> isWebsocket r \<longrightarrow>
      ServeHTTP lib a w r = recover lib a (inspect lib a (start w r)))"
proof -
  have "verdict_calls (state_of (recover lib a (call_next a (start w r)))) = []"
    by (simp add: recover_verdict call_next_verdict start_fields)
  moreover have "\<exists>rest. upstream_calls (state_of (recover lib a (call_next a (start w r)))) = r # rest"
    using recover_call_next_upstream [of lib a "start w r"] by (simp add: start_fields)
  ultimately show ?thesis
    by (simp add: isWebsocket_def isWebsocket_loop_iff ServeHTTP_websocket ServeHTTP_inspect)
qed

theorem websocket_bypass_witness:
  "isWebsocket (sample_request [(''Upgrade'', [''h2c'', ''websocket''])] (Reader ''abcdef'' EOF)) \<and>
   verdict_calls (state_of (ServeHTTP (sample_library accepts (DoResponse (sample_response 403)))
      (sample_gate upstream_ok True False) fresh_writer
      (sample_request [(''Upgrade'', [''h2c'', ''websocket''])] (Reader ''abcdef'' EOF)))) = [] \<and>
   (\<exists>rest. upstream_calls (state_of (ServeHTTP (sample_library accepts (DoResponse (sample_response 403)))
      (sample_gate upstream_ok True False) fresh_writer
      (sample_request [(''Upgrade'', [''h2c'', ''websocket''])] (Reader ''abcdef'' EOF)))) =
      sample_request [(''Upgrade'', [''h2c'', ''websocket''])] (Reader ''abcdef'' EOF) # rest) \<and>
   \<not> isWebsocket (sample_request [(''Upgrade'', [''WebSocket''])] (Reader ''abc'' EOF)) \<and>
   ServeHTTP (sample_library accepts (DoResponse (sample_response 403)))
      (sample_gate upstream_ok True False) fresh_writer
      (sample_request [(''Upgrade'', [''WebSocket''])] (Reader ''abc'' EOF)) =
     recover (sample_library accepts (DoResponse (sample_response 403))) (sample_gate upstream_ok True False)
       (inspect (sample_library accepts (DoResponse (sample_response 403))) (sample_gate upstream_ok True False)
          (start fresh_writer (sample_request [(''Upgrade'', [''WebSocket''])] (Reader ''abc'' EOF))))"
proof -
  have ws: "''websocket'' \<in> set (index (Header (sample_request [(''Upgrade'', [''h2c'', ''websocket''])] b)) ''Upgrade'')" for b
    by (simp add: sample_request_def index_def)
  have nws: "''websocket'' \<notin> set (index (Header (sample_request [(''Upgrade'', [''WebSocket''])] b)) ''Upgrade'')" for b
    by (simp add: sample_request_def index_def)
  show ?thesis
    using websocket_bypass [of "sample_request [(''Upgrade'', [''h2c'', ''websocket''])] (Reader ''abcdef'' EOF)"
        "sample_library accepts (DoResponse (sample_response 403))" "sample_gate upstream_ok True False" fresh_writer]
      websocket_bypass [of "sample_request [(''Upgrade'', [''WebSocket''])] (Reader ''abc'' EOF)"
        "sample_library accepts (DoResponse (sample_response 403))" "sample_gate upstream_ok True False" fresh_writer]
      ws nws
    by blast
qed

subsection \<open>Failures of the capture\<close>

lemma recover_handleError_interrupt:
  assumes "interruptOnError a" and "100 \<le> code" and "code \<le> 999"
  shows "recover lib a (handleError lib a x m code) =
     Returned (x\<lparr>logged := logged x @
                   [Printf m, PrintRequest ''ModSecurity::handleError Request: '' (req x),
                    Print ''ModSecurity::handleError [Interrupt]''],
                 rw := state_of (http_Error (CanonicalMIMEHeaderKey lib) (rw x) [] code)\<rparr>)"
  using assms by (simp add: handleError_interrupt recover_Returned)

lemma recover_handleError_upstream:
  assumes "\<not> interruptOnError a"
  shows "\<exists>rest. upstream_calls (state_of (recover lib a (handleError lib a x m code))) =
           upstream_calls x @ req x # rest"
  using assms recover_upstream [of lib a "handleError lib a x m code"]
  by (simp add: handleError_upstream)

text \<open>
  C9. When reading the body fails, the text of the error alone decides the status handed
  to \<^verbatim>\<open>handleError\<close>: 413 when it is exactly \<^verbatim>\<open>http: request body too large\<close>, 502 for
  any other text. In interrupt mode, on a writer to which nothing was sent, that status
  is the one the client gets.
\<close>

theorem read_error_routing:
  assumes "\<not> isWebsocket r"
    and "ReadAll_MaxBytesReader (maxBodySize a) (Body r) = (ReadFailed err, c)"
  shows
    "(err = ''http: request body too large'' \<longrightarrow>
        ServeHTTP lib a w r =
          recover lib a (handleError lib a ((start w r)\<lparr>req := r\<lparr>Body := c\<rparr>\<rparr>)
            (''body max limit reached: '' @ err) 413)) \<and>
     (err \<noteq> ''http: request body too large'' \<longrightarrow>
        ServeHTTP lib a w r =
          recover lib a (handleError lib a ((start w r)\<lparr>req := r\<lparr>Body := c\<rparr>\<rparr>)
            (''fail to read incoming request: '' @ err) 502)) \<and>
     (interruptOnError a \<and> sent w = None \<longrightarrow>
        (\<exists>x H. ServeHTTP lib a w r = Returned x \<and>
           sent (rw x) = Some (if err = ''http: request body too large'' then 413 else 502, H)))"
proof -
  let ?x = "(start w r)\<lparr>req := r\<lparr>Body := c\<rparr>\<rparr>"
  let ?m = "(if err = ''http: request body too large'' then ''body max limit reached: ''
         else ''fail to read incoming request: '') @ err"
  let ?code = "if err = ''http: request body too large'' then 413 else 502 :: int"
  have S: "ServeHTTP lib a w r = recover lib a (handleError lib a ?x ?m ?code)"
    using assms by (simp add: ServeHTTP_inspect inspect_failed)
  have code: "100 \<le> ?code" "?code \<le> 999"
    by simp_all
  have "\<exists>x H. ServeHTTP lib a w r = Returned x \<and> sent (rw x) = Some (?code, H)"
    if "interruptOnError a" "sent w = None"
    using that http_Error_fresh [where w = w and canon = "CanonicalMIMEHeaderKey lib"
        and m = "[]" and code = ?code]
    by (simp only: S recover_handleError_interrupt [OF that(1) code]) (simp add: start_fields)
  then show ?thesis
    using S by auto
qed

theorem read_error_routing_witness:
  "(\<exists>x H. ServeHTTP (sample_library accepts (DoResponse (sample_response 200)))
        (sample_gate upstream_ok True False) fresh_writer
        (sample_request [] (Reader ''abcdef'' EOF)) = Returned x \<and> sent (rw x) = Some (413, H)) \<and>
   (\<exists>x H. ServeHTTP (sample_library accepts (DoResponse (sample_response 200)))
        (sample_gate upstream_ok True False) fresh_writer
        (sample_request [] (Reader ''abc'' (ReadError ''unexpected EOF''))) = Returned x \<and>
        sent (rw x) = Some (502, H)) \<and>
   (\<exists>x H. ServeHTTP (sample_library accepts (DoResponse (sample_response 200)))
        (sample_gate upstream_ok True False) fresh_writer
        (sample_request [] (Reader ''abc'' (ReadError ''http: request body too large''))) = Returned x \<and>
        sent (rw x) = Some (413, H))"
proof -
  have nw: "\<not> isWebsocket (sample_request [] b)" for b
    by (simp add: isWebsocket_def sample_request_def index_def)
  have rd1: "ReadAll_MaxBytesReader (maxBodySize (sample_gate upstream_ok True False))
      (Body (sample_request [] (Reader ''abcdef'' EOF))) =
      (ReadFailed ''http: request body too large'', Reader ''f'' EOF)"
    by (simp add: ReadAll_MaxBytesReader_def sample_gate_def sample_request_def)
  have rd2: "ReadAll_MaxBytesReader (maxBodySize (sample_gate upstream_ok True False))
      (Body (sample_request [] (Reader ''abc'' (ReadError m)))) = (ReadFailed m, Reader [] (ReadError m))" for m
    by (simp add: ReadAll_MaxBytesReader_def sample_gate_def sample_request_def)
  have i: "interruptOnError (sample_gate upstream_ok True False) \<and> sent fresh_writer = None"
    by (simp add: sample_gate_def fresh_writer_def)
  note T = read_error_routing [where w = fresh_writer
      and lib = "sample_library accepts (DoResponse (sample_response 200))",
      THEN conjunct2, THEN conjunct2, THEN mp, OF nw _ i]
  show ?thesis
    using T [OF rd1] T [OF rd2 [of "''unexpected EOF''"]]
      T [OF rd2 [of "''http: request body too large''"]]
    by (simp del: ex_simps)
qed

text \<open>The stream a failed capture leaves behind.\<close>

lemma ReadAll_MaxBytesReader_nat:
  "ReadAll_MaxBytesReader n b =
     (if nat n < length (pending b)
      then (ReadFailed ''http: request body too large'',
            Reader (drop (nat n + 1) (pending b)) (ending b))
      else (case ending b of
              EOF \<Rightarrow> (ReadOk (pending b), Reader [] EOF)
            | ReadError m \<Rightarrow> (ReadFailed m, Reader [] (ReadError m))
            | ReadPanic v \<Rightarrow> (ReadPanicked v, Reader [] (ReadPanic v))))"
proof -
  have "(if n < 0 then 0 else nat n) = nat n"
    by simp
  then show ?thesis
    by (simp only: ReadAll_MaxBytesReader_def Let_def)
qed

lemma ReadAll_failed_stream:
  assumes "ReadAll_MaxBytesReader n b = (ReadFailed err, c)"
  shows "c \<noteq> Reader (pending b) EOF \<and>
         (if nat n < length (pending b)
          then err = ''http: request body too large'' \<and>
               c = Reader (drop (nat n + 1) (pending b)) (ending b)
          else ending b = ReadError err \<and> c = Reader [] (ReadError err))"
proof (cases "nat n < length (pending b)")
  case True
  then have "length (drop (nat n + 1) (pending b)) < length (pending b)"
    by simp
  then have "drop (nat n + 1) (pending b) \<noteq> pending b"
    by (metis less_irrefl)
  with True assms show ?thesis
    by (auto simp add: ReadAll_MaxBytesReader_nat)
next
  case False
  with assms show ?thesis
    by (auto simp add: ReadAll_MaxBytesReader_nat split: ending.splits)
qed

text \<open>
  C10. When \<open>interruptOnError\<close> is false and the capture fails, the upstream handler is
  called with the request whose body is still the original stream as the failed read
  left it: past the first \<open>limit + 1\<close> bytes when the body was too large, at its failed end
  otherwise. In neither case is it a stream that delivers the original bytes and ends
  normally; the replacement of line 97 is not reached.
\<close>

theorem capture_failure_passes_consumed_body:
  assumes "\<not> isWebsocket r"
    and "\<not> interruptOnError a"
    and "ReadAll_MaxBytesReader (maxBodySize a) (Body r) = (ReadFailed err, c)"
  shows "(\<exists>rest. upstream_calls (state_of (ServeHTTP lib a w r)) = r\<lparr>Body := c\<rparr> # rest) \<and>
         c \<noteq> Reader (pending (Body r)) EOF \<and>
         (if nat (maxBodySize a) < length (pending (Body r))
          then c = Reader (drop (nat (maxBodySize a) + 1) (pending (Body r))) (ending (Body r))
          else c = Reader [] (ReadError err))"
proof -
  let ?x = "(start w r)\<lparr>req := r\<lparr>Body := c\<rparr>\<rparr>"
  let ?m = "(if err = ''http: request body too large'' then ''body max limit reached: ''
         else ''fail to read incoming request: '') @ err"
  let ?code = "if err = ''http: request body too large'' then 413 else 502 :: int"
  have S: "ServeHTTP lib a w r = recover lib a (handleError lib a ?x ?m ?code)"
    using assms(1,3) by (simp add: ServeHTTP_inspect inspect_failed)
  have "\<exists>rest. upstream_calls (state_of (ServeHTTP lib a w r)) = r\<lparr>Body := c\<rparr> # rest"
    using recover_handleError_upstream [OF assms(2), of lib ?x ?m ?code]
    by (simp add: S start_fields)
  then show ?thesis
    using ReadAll_failed_stream [OF assms(3)] by (auto split: if_splits)
qed

theorem capture_failure_passes_consumed_body_witness:
  "(\<exists>rest. upstream_calls (state_of (ServeHTTP (sample_library accepts (DoResponse (sample_response 200)))
        (sample_gate upstream_ok False False) fresh_writer (sample_request [] (Reader ''abcdefg'' EOF)))) =
      sample_request [] (Reader ''fg'' EOF) # rest) \<and>
   (\<exists>rest. upstream_calls (state_of (ServeHTTP (sample_library accepts (DoResponse (sample_response 200)))
        (sample_gate upstream_ok False False) fresh_writer
        (sample_request [] (Reader ''abc'' (ReadError ''unexpected EOF''))))) =
      sample_request [] (Reader [] (ReadError ''unexpected EOF'')) # rest)"
proof -
  have nw: "\<not> isWebsocket (sample_request [] b)" for b
    by (simp add: isWebsocket_def sample_request_def index_def)
  have ni: "\<not> interruptOnError (sample_gate upstream_ok False False)"
    by (simp add: sample_gate_def)
  have rd1: "ReadAll_MaxBytesReader (maxBodySize (sample_gate upstream_ok False False))
      (Body (sample_request [] (Reader ''abcdefg'' EOF))) =
      (ReadFailed ''http: request body too large'', Reader ''fg'' EOF)"
    by (simp add: ReadAll_MaxBytesReader_def sample_gate_def sample_request_def)
  have rd2: "ReadAll_MaxBytesReader (maxBodySize (sample_gate upstream_ok False False))
      (Body (sample_request [] (Reader ''abc'' (ReadError ''unexpected EOF'')))) =
      (ReadFailed ''unexpected EOF'', Reader [] (ReadError ''unexpected EOF''))"
    by (simp add: ReadAll_MaxBytesReader_def sample_gate_def sample_request_def)
  have upd: "(sample_request h b)\<lparr>Body := b'\<rparr> = sample_request h b'" for h b b'
    by (simp add: sample_request_def)
  from capture_failure_passes_consumed_body [OF nw ni rd1, of "sample_library accepts (DoResponse (sample_response 200))" fresh_writer]
    capture_failure_passes_consumed_body [OF nw ni rd2, of "sample_library accepts (DoResponse (sample_response 200))" fresh_writer]
  show ?thesis
    unfolding upd by blast
qed

subsection \<open>The error policy\<close>

lemma ReadAll_too_large:
  "nat n < length (pending b) \<Longrightarrow>
   ReadAll_MaxBytesReader n b =
     (ReadFailed ''http: request body too large'', Reader (drop (nat n + 1) (pending b)) (ending b))"
  by (simp add: ReadAll_MaxBytesReader_nat)

text \<open>
  C4, as amended. For a request that is no websocket upgrade and whose body is longer
  than the configured maximum (a negative maximum counts as 0), the decision service is
  not contacted. If \<open>interruptOnError\<close> is true and nothing was sent to the writer yet,
  \<^verbatim>\<open>ServeHTTP\<close> returns without calling the upstream handler and the client gets status
  413 with the body \<^verbatim>\<open>http.Error\<close> prints for the empty message, one newline byte. If
  \<open>interruptOnError\<close> is false, the upstream handler is called, with the body stream past
  its first \<open>limit + 1\<close> bytes.
\<close>

theorem oversized_body_policy:
  assumes "\<not> isWebsocket r"
    and "max 0 (maxBodySize a) < int (length (pending (Body r)))"
  shows
    "verdict_calls (state_of (ServeHTTP lib a w r)) = [] \<and>
     (interruptOnError a \<and> sent w = None \<and> written w = [] \<longrightarrow>
        (\<exists>x H. ServeHTTP lib a w r = Returned x \<and>
           sent (rw x) = Some (413, H) \<and> written (rw x) = [CHR 0x0A] \<and>
           upstream_calls x = [])) \<and>
     (\<not> interruptOnError a \<longrightarrow>
        (\<exists>rest. upstream_calls (state_of (ServeHTTP lib a w r)) =
           r\<lparr>Body := Reader (drop (nat (maxBodySize a) + 1) (pending (Body r))) (ending (Body r))\<rparr>
           # rest))"
proof -
  let ?c = "Reader (drop (nat (maxBodySize a) + 1) (pending (Body r))) (ending (Body r))"
  let ?x = "(start w r)\<lparr>req := r\<lparr>Body := ?c\<rparr>\<rparr>"
  let ?m = "''body max limit reached: http: request body too large''"
  have "nat (maxBodySize a) < length (pending (Body r))"
    using assms(2) by linarith
  then have "ReadAll_MaxBytesReader (maxBodySize a) (Body r) =
      (ReadFailed ''http: request body too large'', ?c)"
    by (rule ReadAll_too_large)
  then have S: "ServeHTTP lib a w r = recover lib a (handleError lib a ?x ?m 413)"
    using assms(1) by (simp add: ServeHTTP_inspect inspect_failed)
  have v: "verdict_calls (state_of (ServeHTTP lib a w r)) = []"
    by (simp add: S recover_verdict handleError_verdict start_fields)
  have i: "\<exists>x H. ServeHTTP lib a w r = Returned x \<and> sent (rw x) = Some (413, H) \<and>
             written (rw x) = [CHR 0x0A] \<and> upstream_calls x = []"
    if "interruptOnError a" "sent w = None" "written w = []"
    using that http_Error_fresh [where w = w and canon = "CanonicalMIMEHeaderKey lib"
        and m = "[]" and code = 413]
    by (simp only: S recover_handleError_interrupt [OF that(1), of 413]) (simp add: start_fields)
  have c: "\<exists>rest. upstream_calls (state_of (ServeHTTP lib a w r)) = r\<lparr>Body := ?c\<rparr> # rest"
    if "\<not> interruptOnError a"
    using recover_handleError_upstream [OF that, of lib ?x ?m 413]
    by (simp add: S start_fields)
  show ?thesis
    using v i c by blast
qed

theorem oversized_body_policy_witness:
  "verdict_calls (state_of (ServeHTTP (sample_library accepts (DoResponse (sample_response 200)))
      (sample_gate upstream_ok True False) fresh_writer (sample_request [] (Reader ''abcdefg'' EOF)))) = [] \<and>
   (\<exists>x H. ServeHTTP (sample_library accepts (DoResponse (sample_response 200)))
      (sample_gate upstream_ok True False) fresh_writer (sample_request [] (Reader ''abcdefg'' EOF)) = Returned x \<and>
      sent (rw x) = Some (413, H) \<and> written (rw x) = [CHR 0x0A] \<and> upstream_calls x = []) \<and>
   (\<exists>rest. upstream_calls (state_of (ServeHTTP (sample_library accepts (DoResponse (sample_response 200)))
      (sample_gate upstream_ok False False) fresh_writer (sample_request [] (Reader ''abcdefg'' EOF)))) =
      sample_request [] (Reader ''fg'' EOF) # rest)"
proof -
  have nw: "\<not> isWebsocket (sample_request [] b)" for b
    by (simp add: isWebsocket_def sample_request_def index_def)
  have big: "max 0 (maxBodySize (sample_gate upstream_ok i False)) <
      int (length (pending (Body (sample_request [] (Reader ''abcdefg'' EOF)))))" for i
    by (simp add: sample_gate_def sample_request_def)
  have i: "interruptOnError (sample_gate upstream_ok True False) \<and> sent fresh_writer = None \<and>
      written fresh_writer = []"
    by (simp add: sample_gate_def fresh_writer_def)
  have ni: "\<not> interruptOnError (sample_gate upstream_ok False False)"
    by (simp add: sample_gate_def)
  have left: "(sample_request [] (Reader ''abcdefg'' EOF))
      \<lparr>Body := Reader (drop (nat (maxBodySize (sample_gate upstream_ok False False)) + 1)
                 (pending (Body (sample_request [] (Reader ''abcdefg'' EOF)))))
               (ending (Body (sample_request [] (Reader ''abcdefg'' EOF))))\<rparr> =
      sample_request [] (Reader ''fg'' EOF)"
    by (simp add: sample_gate_def sample_request_def)
  note T = oversized_body_policy [OF nw big,
      where lib = "sample_library accepts (DoResponse (sample_response 200))" and w = fresh_writer]
  from T [of True] T [of False] i ni show ?thesis
    unfolding left by blast
qed

text \<open>
  C4 as stated fails twice on the sample gate (maximum 4, interrupt mode) with a body of
  seven bytes: the 413 answer has a body of one byte, not an empty one; and when the
  request carries \<^verbatim>\<open>Upgrade: websocket\<close> the client gets the upstream handler's answer
  (status 200 here), not 413.
\<close>

theorem oversized_body_counterexample:
  "maxBodySize (sample_gate upstream_ok True False) < int (length ''abcdefg'') \<and>
   interruptOnError (sample_gate upstream_ok True False) \<and>
   written (rw (state_of (ServeHTTP (sample_library accepts (DoResponse (sample_response 200)))
      (sample_gate upstream_ok True False) fresh_writer
      (sample_request [] (Reader ''abcdefg'' EOF))))) = [CHR 0x0A] \<and>
   sent (rw (state_of (ServeHTTP (sample_library accepts (DoResponse (sample_response 200)))
      (sample_gate upstream_ok True False) fresh_writer
      (sample_request [(''Upgrade'', [''websocket''])] (Reader ''abcdefg'' EOF))))) = Some (200, []) \<and>
   upstream_calls (state_of (ServeHTTP (sample_library accepts (DoResponse (sample_response 200)))
      (sample_gate upstream_ok True False) fresh_writer
      (sample_request [(''Upgrade'', [''websocket''])] (Reader ''abcdefg'' EOF)))) =
     [sample_request [(''Upgrade'', [''websocket''])] (Reader ''abcdefg'' EOF)]"
  by code_simp

text \<open>
  C6, as amended. When the outbound request cannot be built, or the client returns a
  transport error, no verdict response is relayed and \<^verbatim>\<open>handleError\<close> decides with
  status 502. If \<open>interruptOnError\<close> is true, \<^verbatim>\<open>ServeHTTP\<close> returns without calling the
  upstream handler and the writer is the one \<^verbatim>\<open>http.Error\<close> leaves: if nothing was sent
  before, status 502 with a body of one newline byte. If \<open>interruptOnError\<close> is false, the
  upstream handler is called with the request holding the fresh stream over the
  captured body.
\<close>

theorem transport_failure_policy:
  assumes "\<not> isWebsocket r"
    and "ReadAll_MaxBytesReader (maxBodySize a) (Body r) = (ReadOk body, c)"
    and "NewRequest lib (Method r) (modSecurityUrl a @ RequestURI r) = Some err \<or>
         (NewRequest lib (Method r) (modSecurityUrl a @ RequestURI r) = None \<and>
          Do lib (proxyRequest a r body) = DoError err)"
  shows
    "(interruptOnError a \<longrightarrow>
        (\<exists>x. ServeHTTP lib a w r = Returned x \<and>
           http_Error (CanonicalMIMEHeaderKey lib) w [] 502 = Returned (rw x) \<and>
           upstream_calls x = [] \<and>
           (sent w = None \<and> written w = [] \<longrightarrow>
              (\<exists>H. sent (rw x) = Some (502, H)) \<and> written (rw x) = [CHR 0x0A]))) \<and>
     (\<not> interruptOnError a \<longrightarrow>
        (\<exists>rest. upstream_calls (state_of (ServeHTTP lib a w r)) =
           r\<lparr>Body := Reader body EOF\<rparr> # rest))"
proof -
  obtain x m where S: "ServeHTTP lib a w r = recover lib a (handleError lib a x m 502)"
    and x: "rw x = w" "req x = r\<lparr>Body := Reader body EOF\<rparr>" "upstream_calls x = []"
  proof (cases "NewRequest lib (Method r) (modSecurityUrl a @ RequestURI r)")
    case None
    with assms(3) have "Do lib (proxyRequest a r body) = DoError err"
      by simp
    with None assms(1,2) have "ServeHTTP lib a w r =
        recover lib a (handleError lib a (verdict_state a w r body)
          (''fail to send HTTP request to modsec: '' @ err) 502)"
      by (simp add: ServeHTTP_inspect inspect_captured)
    then show ?thesis
      by (rule that) (simp_all add: verdict_state_def)
  next
    case (Some e)
    with assms(1,2) have "ServeHTTP lib a w r =
        recover lib a (handleError lib a ((start w r)\<lparr>req := r\<lparr>Body := Reader body EOF\<rparr>\<rparr>)
          (''fail to prepare forwarded request: '' @ e) 502)"
      by (simp add: ServeHTTP_inspect inspect_captured)
    then show ?thesis
      by (rule that) (simp_all add: start_fields)
  qed
  have i: "\<exists>y. ServeHTTP lib a w r = Returned y \<and>
           http_Error (CanonicalMIMEHeaderKey lib) w [] 502 = Returned (rw y) \<and>
           upstream_calls y = [] \<and>
           (sent w = None \<and> written w = [] \<longrightarrow>
              (\<exists>H. sent (rw y) = Some (502, H)) \<and> written (rw y) = [CHR 0x0A])"
    if "interruptOnError a"
    using that http_Error_fresh [where w = w and canon = "CanonicalMIMEHeaderKey lib"
        and m = "[]" and code = 502]
    by (simp only: S recover_handleError_interrupt [OF that, of 502]) (simp add: x http_Error_state)
  have c: "\<exists>rest. upstream_calls (state_of (ServeHTTP lib a w r)) = r\<lparr>Body := Reader body EOF\<rparr> # rest"
    if "\<not> interruptOnError a"
    using recover_handleError_upstream [OF that, of lib x m 502]
    by (simp add: S x)
  show ?thesis
    using i c by blast
qed

theorem transport_failure_policy_witness:
  "(\<exists>x H. ServeHTTP (sample_library accepts (DoError ''context deadline exceeded''))
        (sample_gate upstream_ok True False) fresh_writer (sample_request [] (Reader ''abc'' EOF)) = Returned x \<and>
      upstream_calls x = [] \<and> sent (rw x) = Some (502, H) \<and> written (rw x) = [CHR 0x0A]) \<and>
   (\<exists>x H. ServeHTTP (sample_library rejects (DoResponse (sample_response 403)))
        (sample_gate upstream_ok True False) fresh_writer (sample_request [] (Reader ''abc'' EOF)) = Returned x \<and>
      upstream_calls x = [] \<and> sent (rw x) = Some (502, H) \<and> written (rw x) = [CHR 0x0A]) \<and>
   (\<exists>rest. upstream_calls (state_of (ServeHTTP (sample_library accepts (DoError ''context deadline exceeded''))
        (sample_gate upstream_ok False False) fresh_writer (sample_request [] (Reader ''abc'' EOF)))) =
      sample_request [] (Reader ''abc'' EOF) # rest)"
proof -
  let ?r = "sample_request [] (Reader ''abc'' EOF)"
  have nw: "\<not> isWebsocket ?r"
    by (simp add: isWebsocket_def sample_request_def index_def)
  have rd: "ReadAll_MaxBytesReader (maxBodySize (sample_gate upstream_ok i False)) (Body ?r) =
      (ReadOk ''abc'', Reader [] EOF)" for i
    by (simp add: ReadAll_MaxBytesReader_def sample_gate_def sample_request_def)
  have f1: "NewRequest (sample_library accepts (DoError e)) m u = Some e \<or>
      (NewRequest (sample_library accepts (DoError e)) m u = None \<and>
       Do (sample_library accepts (DoError e)) p = DoError e)" for e m u p
    by (simp add: sample_library_def accepts_def)
  have f2: "NewRequest (sample_library rejects d) m u = Some ''net/http: invalid method'' \<or>
      (NewRequest (sample_library rejects d) m u = None \<and>
       Do (sample_library rejects d) p = DoError ''net/http: invalid method'')" for d m u p
    by (simp add: sample_library_def rejects_def)
  have i: "interruptOnError (sample_gate upstream_ok True False)"
    "\<not> interruptOnError (sample_gate upstream_ok False False)"
    "sent fresh_writer = None \<and> written fresh_writer = []"
    by (simp_all add: sample_gate_def fresh_writer_def)
  have same: "?r\<lparr>Body := Reader ''abc'' EOF\<rparr> = ?r"
    by (simp add: sample_request_def)
  from transport_failure_policy [where w = fresh_writer and a = "sample_gate upstream_ok True False"
      and lib = "sample_library accepts (DoError ''context deadline exceeded'')", OF nw rd f1]
    transport_failure_policy [where w = fresh_writer and a = "sample_gate upstream_ok True False"
      and lib = "sample_library rejects (DoResponse (sample_response 403))", OF nw rd f2]
    transport_failure_policy [where w = fresh_writer and a = "sample_gate upstream_ok False False"
      and lib = "sample_library accepts (DoError ''context deadline exceeded'')", OF nw rd f1] i
  show ?thesis
    unfolding same by blast
qed

text \<open>
  C6 as stated fails where it says the body is empty: with a refused connection and
  interrupt mode the client gets status 502, the two headers of \<^verbatim>\<open>http.Error\<close>, and a
  body of one byte.
\<close>

theorem transport_failure_counterexample:
  "interruptOnError (sample_gate upstream_ok True False) \<and>
   Do (sample_library accepts (DoError ''dial tcp: connection refused''))
      (proxyRequest (sample_gate upstream_ok True False) (sample_request [] (Reader ''abc'' EOF)) ''abc'') =
     DoError ''dial tcp: connection refused'' \<and>
   sent (rw (state_of (ServeHTTP (sample_library accepts (DoError ''dial tcp: connection refused''))
      (sample_gate upstream_ok True False) fresh_writer (sample_request [] (Reader ''abc'' EOF))))) =
     Some (502, [(''Content-Type'', [''text/plain; charset=utf-8'']),
                 (''X-Content-Type-Options'', [''nosniff''])]) \<and>
   written (rw (state_of (ServeHTTP (sample_library accepts (DoError ''dial tcp: connection refused''))
      (sample_gate upstream_ok True False) fresh_writer (sample_request [] (Reader ''abc'' EOF))))) =
     [CHR 0x0A]"
  by code_simp

subsection \<open>Panics\<close>

text \<open>When the deferred recovery lets \<^verbatim>\<open>ServeHTTP\<close> return.\<close>

lemma recover_returned:
  "returned (recover lib a out) =
     (returned out \<or> interruptOnError a \<or>
      returned (nextHandler a (rw (state_of out)) (req (state_of out))))"
proof (cases out)
  case (Returned x)
  then show ?thesis by (simp add: recover_Returned)
next
  case (Panicked v x)
  show ?thesis
  proof (cases "interruptOnError a")
    case True
    then show ?thesis using recover_interrupt_returned [of a lib out] by simp
  next
    case False
    then show ?thesis
      by (simp add: Panicked recover_def handleError_continue call_next_returned)
  qed
qed

text \<open>
  C7, as amended. \<^verbatim>\<open>ServeHTTP\<close> returns normally exactly when its body returns, or
  \<open>interruptOnError\<close> is true, or the upstream call made by the recovery returns. A panic of
  the body is answered by \<^verbatim>\<open>handleError\<close> with status 502. If \<open>interruptOnError\<close> is true,
  \<^verbatim>\<open>http.Error\<close> is applied to the writer as the panic left it and the upstream handler
  is not called again: if nothing was sent before, the client gets status 502 and what was
  written followed by one newline byte. If \<open>interruptOnError\<close> is false, the upstream
  handler is called once more, with the request as the panic left it; a panic of that
  call is not recovered.
\<close>

theorem panic_recovery:
  "returned (ServeHTTP lib a w r) =
     (returned (ServeHTTP_body lib a (start w r)) \<or> interruptOnError a \<or>
      returned (nextHandler a (rw (state_of (ServeHTTP_body lib a (start w r))))
                              (req (state_of (ServeHTTP_body lib a (start w r)))))) \<and>
   (ServeHTTP_body lib a (start w r) = Panicked v x \<longrightarrow>
      ServeHTTP lib a w r = handleError lib a x (''Panic. Error: '' @ v) 502 \<and>
      (interruptOnError a \<longrightarrow>
         (\<exists>y. ServeHTTP lib a w r = Returned y \<and>
            http_Error (CanonicalMIMEHeaderKey lib) (rw x) [] 502 = Returned (rw y) \<and>
            upstream_calls y = upstream_calls x \<and>
            (sent (rw x) = None \<longrightarrow>
               (\<exists>H. sent (rw y) = Some (502, H)) \<and> written (rw y) = written (rw x) @ [CHR 0x0A]))) \<and>
      (\<not> interruptOnError a \<longrightarrow>
         upstream_calls (state_of (ServeHTTP lib a w r)) = upstream_calls x @ [req x]))"
proof -
  have R: "returned (ServeHTTP lib a w r) =
     (returned (ServeHTTP_body lib a (start w r)) \<or> interruptOnError a \<or>
      returned (nextHandler a (rw (state_of (ServeHTTP_body lib a (start w r))))
                              (req (state_of (ServeHTTP_body lib a (start w r))))))"
    by (simp only: ServeHTTP_def recover_returned)
  have P: "ServeHTTP lib a w r = handleError lib a x (''Panic. Error: '' @ v) 502"
    if "ServeHTTP_body lib a (start w r) = Panicked v x"
    using that by (simp add: ServeHTTP_def recover_def)
  have I: "\<exists>y. handleError lib a x (''Panic. Error: '' @ v) 502 = Returned y \<and>
            http_Error (CanonicalMIMEHeaderKey lib) (rw x) [] 502 = Returned (rw y) \<and>
            upstream_calls y = upstream_calls x \<and>
            (sent (rw x) = None \<longrightarrow>
               (\<exists>H. sent (rw y) = Some (502, H)) \<and> written (rw y) = written (rw x) @ [CHR 0x0A])"
    if "interruptOnError a"
    using http_Error_fresh [where w = "rw x" and canon = "CanonicalMIMEHeaderKey lib"
        and m = "[]" and code = 502]
    by (simp add: handleError_interrupt [OF that, of 502] http_Error_state)
  have C: "upstream_calls (state_of (handleError lib a x (''Panic. Error: '' @ v) 502)) =
      upstream_calls x @ [req x]"
    if "\<not> interruptOnError a"
    using that by (simp add: handleError_upstream)
  show ?thesis
    using R P I C by (simp del: ex_simps)
qed

theorem panic_recovery_witness:
  "(\<exists>y H. ServeHTTP (sample_library accepts (DoResponse (sample_response 200)))
        (sample_gate upstream_ok True False) fresh_writer
        (sample_request [] (Reader ''abc'' (ReadPanic ''nil pointer dereference''))) = Returned y \<and>
      upstream_calls y = [] \<and> sent (rw y) = Some (502, H) \<and> written (rw y) = [CHR 0x0A]) \<and>
   upstream_calls (state_of (ServeHTTP (sample_library accepts (DoResponse (sample_response 200)))
        (sample_gate upstream_ok False False) fresh_writer
        (sample_request [] (Reader ''abc'' (ReadPanic ''nil pointer dereference''))))) =
     [sample_request [] (Reader [] (ReadPanic ''nil pointer dereference''))] \<and>
   returned (ServeHTTP (sample_library accepts (DoResponse (sample_response 200)))
        (sample_gate upstream_ok False False) fresh_writer
        (sample_request [] (Reader ''abc'' (ReadPanic ''nil pointer dereference''))))"
proof -
  let ?r = "sample_request [] (Reader ''abc'' (ReadPanic ''nil pointer dereference''))"
  let ?lib = "sample_library accepts (DoResponse (sample_response 200))"
  let ?x = "(start fresh_writer ?r)\<lparr>req := sample_request [] (Reader [] (ReadPanic ''nil pointer dereference''))\<rparr>"
  have b: "ServeHTTP_body ?lib (sample_gate upstream_ok i False) (start fresh_writer ?r) =
      Panicked ''nil pointer dereference'' ?x" for i
    by (simp add: ServeHTTP_body_def isWebsocket_def index_def inspect_def
        ReadAll_MaxBytesReader_def sample_request_def sample_gate_def start_def)
  have i: "interruptOnError (sample_gate upstream_ok True False)"
    "\<not> interruptOnError (sample_gate upstream_ok False False)"
    by (simp_all add: sample_gate_def)
  have x: "sent (rw ?x) = None" "written (rw ?x) = []" "upstream_calls ?x = []"
    "req ?x = sample_request [] (Reader [] (ReadPanic ''nil pointer dereference''))"
    by (simp_all add: start_def fresh_writer_def)
  have n: "returned (nextHandler (sample_gate upstream_ok False False) w r)" for w r
    by (simp add: sample_gate_def upstream_ok_def)
  note T = panic_recovery [where lib = ?lib and w = fresh_writer and r = ?r
      and v = "''nil pointer dereference''" and x = ?x]
  from T [of "sample_gate upstream_ok True False"] T [of "sample_gate upstream_ok False False"]
    b i x n
  show ?thesis
    by (metis append_Nil)
qed

text \<open>
  C7 as stated fails on an upstream handler that panics, with \<open>interruptOnError\<close> false:
  the panic of line 134 is recovered, the recovery calls the handler again, and the second
  panic leaves \<^verbatim>\<open>ServeHTTP\<close>. It also fails where it says the 502 answer has an empty body.
\<close>

theorem panic_recovery_counterexample:
  "\<not> interruptOnError (sample_gate upstream_faulty False False) \<and>
   \<not> returned (ServeHTTP (sample_library accepts (DoResponse (sample_response 200)))
        (sample_gate upstream_faulty False False) fresh_writer (sample_request [] (Reader ''abc'' EOF))) \<and>
   interruptOnError (sample_gate upstream_ok True False) \<and>
   written (rw (state_of (ServeHTTP (sample_library accepts (DoResponse (sample_response 200)))
        (sample_gate upstream_ok True False) fresh_writer
        (sample_request [] (Reader ''abc'' (ReadPanic ''nil pointer dereference'')))))) = [CHR 0x0A]"
  by code_simp

end
